theory Spec2Isabelle
  imports Complex_Main
begin

section \<open>Global game state (state.ts)\<close>

text \<open>
  The object \<open>globalGameState\<close> of state.ts: the list of scenes and the two scene-name
  fields, with the two setters. Each setter writes its field only when
  \<open>this.scenes.includes(sceneName)\<close>.
\<close>

record globalGameState =
  scenes :: "string list"
  nextScene :: string
  currentScene :: string

definition globalGameState_init :: globalGameState where
  "globalGameState_init =
     \<lparr>scenes = [''level-1'', ''level-2'', ''end''], nextScene = '''', currentScene = ''level-1''\<rparr>"

definition setCurrentScene :: "string \<Rightarrow> globalGameState \<Rightarrow> globalGameState" where
  "setCurrentScene sceneName g =
     (if sceneName \<in> set (scenes g) then g\<lparr>currentScene := sceneName\<rparr> else g)"

definition setNextScene :: "string \<Rightarrow> globalGameState \<Rightarrow> globalGameState" where
  "setNextScene sceneName g =
     (if sceneName \<in> set (scenes g) then g\<lparr>nextScene := sceneName\<rparr> else g)"

text \<open>A call of one of the two setters, and a sequence of such calls in program order.\<close>

datatype setter_call = SetCurrentScene string | SetNextScene string

fun apply_setter :: "setter_call \<Rightarrow> globalGameState \<Rightarrow> globalGameState" where
  "apply_setter (SetCurrentScene s) g = setCurrentScene s g"
| "apply_setter (SetNextScene s) g = setNextScene s g"

fun apply_setters :: "setter_call list \<Rightarrow> globalGameState \<Rightarrow> globalGameState" where
  "apply_setters [] g = g"
| "apply_setters (c # cs) g = apply_setters cs (apply_setter c g)"

section \<open>Constants (constants.ts)\<close>

definition scale :: real where
  "scale = 4"

section \<open>Player, controls and the capture protocol (entities.ts)\<close>

text \<open>
  The engine is the Kaboom library and is not part of the sources. A handler's calls
  into it that change no field of the objects below are recorded, in program order, in
  the list \<open>calls\<close> of the world: \<open>k.destroy(o)\<close>, \<open>k.go(scene)\<close>, \<open>k.tween\<close> on the
  player's opacity (target value and duration) and \<open>player.doubleJump()\<close>. The engine's
  \<open>move(vx, vy)\<close> displaces an object by the velocity times the frame's duration \<open>dt\<close>;
  \<open>hurt()\<close> lowers \<open>hp\<close> by one; numbers are reals. The two tweens of the damage branch
  are recorded in the order in which the handler starts them. The update callback of
  the inhale zone, which only places the zone and the effect sprite, and the culling
  of birds that leave the screen are not part of the model.
\<close>

datatype obj = PlayerObj | EnemyObj nat | StarObj nat

datatype call =
    Destroy obj
  | Go string
  | Tween real real
  | DoubleJump

record player =
  hp :: int
  speed :: real
  direction :: string
  isInhaling :: bool
  isFull :: bool
  pos_x :: real
  pos_y :: real
  flipX :: bool
  curAnim :: string

text \<open>
  An enemy as the capture protocol sees it. \<open>isInhalable\<close> is declared \<open>false\<close> by
  \<open>makeGuyEnemy\<close> and is absent (\<open>undefined\<close>, which the two conditions reading it take
  as false) on a new flame or bird: \<open>False\<close> in both cases.
\<close>

record enemy =
  isInhalable :: bool
  e_pos_x :: real

text \<open>
  The projectile added by the release handler: sprite flip, position, and the
  \<open>k.move(dir, 800)\<close> component as a horizontal direction (\<open>-1\<close> for \<open>k.LEFT\<close>, \<open>1\<close> for
  \<open>k.RIGHT\<close>) and a speed.
\<close>

record star =
  s_flipX :: bool
  s_pos_x :: real
  s_pos_y :: real
  s_dir_x :: real
  s_speed :: real

text \<open>
  The world of one scene: the player, the opacity of the inhale effect object, the
  enemies by identity, the projectiles in the order they were added (a projectile's
  identity is its index), the pending \<open>k.wait(t, () => player.play(anim))\<close> timers as
  pairs of duration and animation, the engine calls and the global game state.
\<close>

record world =
  player :: player
  inhaleEffect_opacity :: real
  enemies :: "nat \<Rightarrow> enemy"
  stars :: "star list"
  pending :: "(real \<times> string) list"
  calls :: "call list"
  game :: globalGameState

definition makePlayer :: "real \<Rightarrow> real \<Rightarrow> player" where
  "makePlayer posX posY =
     \<lparr>hp = 3, speed = 300, direction = ''right'', isInhaling = False, isFull = False,
      pos_x = posX * scale, pos_y = posY * scale, flipX = False, curAnim = ''kirbIdle''\<rparr>"

text \<open>\<open>player.onCollide("enemy", ...)\<close> of \<open>makePlayer\<close>, for the enemy of identity \<open>i\<close>.\<close>

definition player_onCollide_enemy :: "nat \<Rightarrow> world \<Rightarrow> world" where
  "player_onCollide_enemy i w =
     (if isInhaling (player w) \<and> isInhalable (enemies w i) then
        w\<lparr>player := (player w)\<lparr>isInhaling := False, isFull := True\<rparr>,
          calls := calls w @ [Destroy (EnemyObj i)]\<rparr>
      else if hp (player w) = 0 then
        w\<lparr>calls := calls w @ [Destroy PlayerObj, Go (currentScene (game w))]\<rparr>
      else
        w\<lparr>player := (player w)\<lparr>hp := hp (player w) - 1\<rparr>,
          calls := calls w @ [Tween 0 0.05, Tween 1 0.05]\<rparr>)"

text \<open>\<open>player.onCollide("exit", ...)\<close> and \<open>player.onUpdate(...)\<close> of \<open>makePlayer\<close>.\<close>

definition player_onCollide_exit :: "world \<Rightarrow> world" where
  "player_onCollide_exit w = w\<lparr>calls := calls w @ [Go (nextScene (game w))]\<rparr>"

definition player_onUpdate :: "world \<Rightarrow> world" where
  "player_onUpdate w =
     (if pos_y (player w) > 2000 then w\<lparr>calls := calls w @ [Go (currentScene (game w))]\<rparr>
      else w)"

text \<open>The three input handlers of \<open>setControls\<close>.\<close>

definition onKeyDown :: "string \<Rightarrow> real \<Rightarrow> world \<Rightarrow> world" where
  "onKeyDown key dt w =
     (if key = ''left'' then
        w\<lparr>player := (player w)\<lparr>direction := ''left'', flipX := True,
             pos_x := pos_x (player w) + (- speed (player w)) * dt\<rparr>\<rparr>
      else if key = ''right'' then
        w\<lparr>player := (player w)\<lparr>direction := ''right'', flipX := False,
             pos_x := pos_x (player w) + speed (player w) * dt\<rparr>\<rparr>
      else if key = ''z'' then
        (if isFull (player w) then
           w\<lparr>player := (player w)\<lparr>curAnim := ''kirbFull''\<rparr>, inhaleEffect_opacity := 0\<rparr>
         else
           w\<lparr>player := (player w)\<lparr>isInhaling := True, curAnim := ''kirbInhaling''\<rparr>,
             inhaleEffect_opacity := 1\<rparr>)
      else w)"

definition onKeyPress :: "string \<Rightarrow> world \<Rightarrow> world" where
  "onKeyPress key w = (if key = ''x'' then w\<lparr>calls := calls w @ [DoubleJump]\<rparr> else w)"

definition shootingStar :: "player \<Rightarrow> star" where
  "shootingStar p =
     \<lparr>s_flipX = (direction p = ''right''),
      s_pos_x = (if direction p = ''left'' then pos_x p - 80 else pos_x p + 80),
      s_pos_y = pos_y p + 5,
      s_dir_x = (if direction p = ''left'' then - 1 else 1),
      s_speed = 800\<rparr>"

definition onKeyRelease :: "string \<Rightarrow> world \<Rightarrow> world" where
  "onKeyRelease key w =
     (if key = ''z'' then
        (if isFull (player w) then
           w\<lparr>player := (player w)\<lparr>curAnim := ''kirbInhaling'', isFull := False\<rparr>,
             stars := stars w @ [shootingStar (player w)],
             pending := pending w @ [(1, ''kirbIdle'')]\<rparr>
         else
           w\<lparr>inhaleEffect_opacity := 0,
             player := (player w)\<lparr>isInhaling := False, curAnim := ''kirbIdle''\<rparr>\<rparr>)
      else w)"

text \<open>
  The oldest pending \<open>k.wait\<close> of the release handler completes: its callback plays the
  animation.
\<close>

definition waitElapsed :: "world \<Rightarrow> world" where
  "waitElapsed w =
     (case pending w of
        [] \<Rightarrow> w
      | (t, a) # rest \<Rightarrow> w\<lparr>player := (player w)\<lparr>curAnim := a\<rparr>, pending := rest\<rparr>)"

text \<open>\<open>shootingStar.onCollide("platform", ...)\<close> for the projectile of identity \<open>s\<close>.\<close>

definition star_onCollide_platform :: "nat \<Rightarrow> world \<Rightarrow> world" where
  "star_onCollide_platform s w = w\<lparr>calls := calls w @ [Destroy (StarObj s)]\<rparr>"

text \<open>The four handlers that \<open>makeInhalable\<close> attaches to the enemy of identity \<open>i\<close>.\<close>

definition enemy_onCollide_inhaleZone :: "nat \<Rightarrow> world \<Rightarrow> world" where
  "enemy_onCollide_inhaleZone i w =
     w\<lparr>enemies := (enemies w)(i := (enemies w i)\<lparr>isInhalable := True\<rparr>)\<rparr>"

definition enemy_onCollideEnd_inhaleZone :: "nat \<Rightarrow> world \<Rightarrow> world" where
  "enemy_onCollideEnd_inhaleZone i w =
     w\<lparr>enemies := (enemies w)(i := (enemies w i)\<lparr>isInhalable := False\<rparr>)\<rparr>"

definition enemy_onCollide_shootingStar :: "nat \<Rightarrow> nat \<Rightarrow> world \<Rightarrow> world" where
  "enemy_onCollide_shootingStar i s w =
     w\<lparr>calls := calls w @ [Destroy (EnemyObj i), Destroy (StarObj s)]\<rparr>"

definition enemy_onUpdate :: "nat \<Rightarrow> real \<Rightarrow> world \<Rightarrow> world" where
  "enemy_onUpdate i dt w =
     (if isInhaling (player w) \<and> isInhalable (enemies w i) then
        (if direction (player w) = ''right'' then
           w\<lparr>enemies := (enemies w)(i := (enemies w i)\<lparr>e_pos_x := e_pos_x (enemies w i) + (- 800) * dt\<rparr>)\<rparr>
         else
           w\<lparr>enemies := (enemies w)(i := (enemies w i)\<lparr>e_pos_x := e_pos_x (enemies w i) + 800 * dt\<rparr>)\<rparr>)
      else w)"

text \<open>
  What the engine reports to the handlers: key events (a held key with the frame's
  duration), contacts, end of contact, a frame update of an object, a completed wait.
\<close>

datatype event =
    KeyDown string real
  | KeyPress string
  | KeyRelease string
  | WaitElapsed
  | PlayerCollideEnemy nat
  | PlayerCollideExit
  | PlayerUpdate
  | EnemyCollideInhaleZone nat
  | EnemyCollideEndInhaleZone nat
  | EnemyCollideShootingStar nat nat
  | EnemyUpdate nat real
  | StarCollidePlatform nat

fun step :: "event \<Rightarrow> world \<Rightarrow> world" where
  "step (KeyDown key dt) w = onKeyDown key dt w"
| "step (KeyPress key) w = onKeyPress key w"
| "step (KeyRelease key) w = onKeyRelease key w"
| "step WaitElapsed w = waitElapsed w"
| "step (PlayerCollideEnemy i) w = player_onCollide_enemy i w"
| "step PlayerCollideExit w = player_onCollide_exit w"
| "step PlayerUpdate w = player_onUpdate w"
| "step (EnemyCollideInhaleZone i) w = enemy_onCollide_inhaleZone i w"
| "step (EnemyCollideEndInhaleZone i) w = enemy_onCollideEnd_inhaleZone i w"
| "step (EnemyCollideShootingStar i s) w = enemy_onCollide_shootingStar i s w"
| "step (EnemyUpdate i dt) w = enemy_onUpdate i dt w"
| "step (StarCollidePlatform s) w = star_onCollide_platform s w"

fun run :: "event list \<Rightarrow> world \<Rightarrow> world" where
  "run [] w = w"
| "run (ev # evs) w = run evs (step ev w)"

text \<open>
  The world at the start of the scene \<open>level-1\<close> (main.ts): the scene function sets the
  two scene names, makes the player at its spawn point and adds the enemies; the inhale
  effect starts with opacity 0.
\<close>

definition level1_world :: "real \<Rightarrow> real \<Rightarrow> (nat \<Rightarrow> enemy) \<Rightarrow> world" where
  "level1_world posX posY es =
     \<lparr>player = makePlayer posX posY, inhaleEffect_opacity = 0, enemies = es, stars = [],
      pending = [], calls = [],
      game = setNextScene ''level-2'' (setCurrentScene ''level-1'' globalGameState_init)\<rparr>"

definition no_enemy_inhalable :: "nat \<Rightarrow> enemy" where
  "no_enemy_inhalable = (\<lambda>i. \<lparr>isInhalable = False, e_pos_x = 0\<rparr>)"

text \<open>
  Whether the enemy \<open>i\<close> overlaps the capture zone after a sequence of events, read off
  the begin and end of overlap events alone (\<open>b\<close> is the status before the sequence).
\<close>

fun inZone :: "nat \<Rightarrow> event list \<Rightarrow> bool \<Rightarrow> bool" where
  "inZone i [] b = b"
| "inZone i (ev # evs) b =
     inZone i evs (if ev = EnemyCollideInhaleZone i then True
                   else if ev = EnemyCollideEndInhaleZone i then False else b)"

text \<open>
  The engine calls of \<open>player.onCollide("enemy", ...)\<close> outside its capture branch: the
  death branch when \<open>hp\<close> is 0, otherwise the two opacity tweens that follow \<open>hurt()\<close>.
\<close>

definition damage_calls :: "world \<Rightarrow> call list" where
  "damage_calls w =
     (if hp (player w) = 0 then [Destroy PlayerObj, Go (currentScene (game w))]
      else [Tween 0 0.05, Tween 1 0.05])"

section \<open>Enemy state machines (entities.ts)\<close>

text \<open>
  Modelled from the spec: the state component (\<open>k.state\<close>, \<open>enterState\<close>, \<open>onStateEnter\<close>,
  \<open>onStateUpdate\<close>) belongs to the engine and is missing from the sources, which only
  call it. Section 4.1: \<open>enterState(name)\<close> of an undeclared name leaves the current
  state unchanged and fires no callback; a valid transition invokes the exit callback
  of the current state, sets the current state, and invokes the enter callback of the
  new state. Section 5: a timed wait is a suspension point; its continuation runs when
  its deadline elapses. Here a pending \<open>await k.wait(t)\<close> is a pair of the duration \<open>t\<close>
  in seconds and the state that its continuation enters, and the completion of the
  oldest pending wait is an event. The enter callback of the initial state runs when
  the object starts updating, so that the initial Idle has its delay.
\<close>

definition enterState ::
  "string list \<Rightarrow> ('a \<Rightarrow> string) \<Rightarrow> (string \<Rightarrow> 'a \<Rightarrow> 'a) \<Rightarrow>
   (string \<Rightarrow> 'a \<Rightarrow> 'a) \<Rightarrow> (string \<Rightarrow> 'a \<Rightarrow> 'a) \<Rightarrow> string \<Rightarrow> 'a \<Rightarrow> 'a" where
  "enterState declared current setState onExit onEnter name x =
     (if name \<in> set declared then onEnter name (setState name (onExit (current x) x)) else x)"

text \<open>
  The flame of \<open>makeFlameEnemy\<close>: position, current state, pending waits, the forces
  of the \<open>flame.jump(1000)\<close> calls so far, and the enter and exit callbacks that have
  run, in order (the sources register no exit callback). The argument of
  \<open>flame_onStateUpdate\<close> is the result of \<open>flame.isGrounded()\<close> on that frame.
\<close>

record flame =
  f_pos_x :: real
  f_pos_y :: real
  f_state :: string
  f_waits :: "(real \<times> string) list"
  f_impulses :: "real list"
  f_fired :: "(string \<times> string) list"

definition flame_states :: "string list" where
  "flame_states = [''idle'', ''jump'']"

definition flame_onStateEnter :: "string \<Rightarrow> flame \<Rightarrow> flame" where
  "flame_onStateEnter name f =
     (if name = ''idle'' then
        f\<lparr>f_waits := f_waits f @ [(1, ''jump'')], f_fired := f_fired f @ [(''enter'', ''idle'')]\<rparr>
      else if name = ''jump'' then
        f\<lparr>f_impulses := f_impulses f @ [1000], f_fired := f_fired f @ [(''enter'', ''jump'')]\<rparr>
      else f)"

definition flame_onStateEnd :: "string \<Rightarrow> flame \<Rightarrow> flame" where
  "flame_onStateEnd name f = f"

definition flame_enterState :: "string \<Rightarrow> flame \<Rightarrow> flame" where
  "flame_enterState =
     enterState flame_states f_state (\<lambda>name f. f\<lparr>f_state := name\<rparr>) flame_onStateEnd flame_onStateEnter"

definition flame_onStateUpdate :: "bool \<Rightarrow> flame \<Rightarrow> flame" where
  "flame_onStateUpdate grounded f =
     (if f_state f = ''jump'' then (if grounded then flame_enterState ''idle'' f else f) else f)"

definition flame_waitElapsed :: "flame \<Rightarrow> flame" where
  "flame_waitElapsed f =
     (case f_waits f of
        [] \<Rightarrow> f
      | (t, target) # rest \<Rightarrow> flame_enterState target (f\<lparr>f_waits := rest\<rparr>))"

definition makeFlameEnemy :: "real \<Rightarrow> real \<Rightarrow> flame" where
  "makeFlameEnemy posX posY =
     flame_onStateEnter ''idle''
       \<lparr>f_pos_x = posX * scale, f_pos_y = posY * scale, f_state = ''idle'', f_waits = [],
        f_impulses = [], f_fired = []\<rparr>"

datatype flame_event = FlameWaitElapsed | FlameUpdate bool

fun flame_step :: "flame_event \<Rightarrow> flame \<Rightarrow> flame" where
  "flame_step FlameWaitElapsed f = flame_waitElapsed f"
| "flame_step (FlameUpdate grounded) f = flame_onStateUpdate grounded f"

fun flame_run :: "flame_event list \<Rightarrow> flame \<Rightarrow> flame" where
  "flame_run [] f = f"
| "flame_run (ev # evs) f = flame_run evs (flame_step ev f)"

text \<open>
  One cycle of the flame as a sequence of events: frames while the wait is pending
  (with any grounded flags), the wait completing, \<open>n\<close> frames in the air, and the
  first frame on which the grounded check is true.
\<close>

definition flame_cycle :: "bool list \<times> nat \<Rightarrow> flame_event list" where
  "flame_cycle c =
     map FlameUpdate (fst c) @ [FlameWaitElapsed] @ replicate (snd c) (FlameUpdate False)
       @ [FlameUpdate True]"

text \<open>
  The guy of \<open>makeGuyEnemy\<close>. \<open>g_clock\<close> is the time in seconds of the latest completed
  wait: each wait here is started at the instant the previous one completes, so a wait
  of \<open>t\<close> seconds completes at \<open>g_clock + t\<close>.
\<close>

record guy =
  g_pos_x :: real
  g_pos_y :: real
  g_state :: string
  g_isInhalable :: bool
  g_speed :: real
  g_flipX :: bool
  g_waits :: "(real \<times> string) list"
  g_clock :: real
  g_fired :: "(string \<times> string) list"

definition guy_states :: "string list" where
  "guy_states = [''idle'', ''left'', ''right'', ''jump'']"

definition guy_onStateEnter :: "string \<Rightarrow> guy \<Rightarrow> guy" where
  "guy_onStateEnter name g =
     (if name = ''idle'' then
        g\<lparr>g_waits := g_waits g @ [(1, ''left'')], g_fired := g_fired g @ [(''enter'', ''idle'')]\<rparr>
      else if name = ''left'' then
        g\<lparr>g_flipX := False, g_waits := g_waits g @ [(2, ''right'')],
          g_fired := g_fired g @ [(''enter'', ''left'')]\<rparr>
      else if name = ''right'' then
        g\<lparr>g_flipX := True, g_waits := g_waits g @ [(2, ''left'')],
          g_fired := g_fired g @ [(''enter'', ''right'')]\<rparr>
      else g)"

definition guy_onStateEnd :: "string \<Rightarrow> guy \<Rightarrow> guy" where
  "guy_onStateEnd name g = g"

definition guy_enterState :: "string \<Rightarrow> guy \<Rightarrow> guy" where
  "guy_enterState =
     enterState guy_states g_state (\<lambda>name g. g\<lparr>g_state := name\<rparr>) guy_onStateEnd guy_onStateEnter"

definition guy_onStateUpdate :: "real \<Rightarrow> guy \<Rightarrow> guy" where
  "guy_onStateUpdate dt g =
     (if g_state g = ''left'' then g\<lparr>g_pos_x := g_pos_x g + (- g_speed g) * dt\<rparr>
      else if g_state g = ''right'' then g\<lparr>g_pos_x := g_pos_x g + g_speed g * dt\<rparr>
      else g)"

definition guy_waitElapsed :: "guy \<Rightarrow> guy" where
  "guy_waitElapsed g =
     (case g_waits g of
        [] \<Rightarrow> g
      | (t, target) # rest \<Rightarrow> guy_enterState target (g\<lparr>g_waits := rest, g_clock := g_clock g + t\<rparr>))"

definition makeGuyEnemy :: "real \<Rightarrow> real \<Rightarrow> guy" where
  "makeGuyEnemy posX posY =
     guy_onStateEnter ''idle''
       \<lparr>g_pos_x = posX * scale, g_pos_y = posY * scale, g_state = ''idle'', g_isInhalable = False,
        g_speed = 100, g_flipX = False, g_waits = [], g_clock = 0, g_fired = []\<rparr>"

datatype guy_event = GuyWaitElapsed | GuyUpdate real

fun guy_step :: "guy_event \<Rightarrow> guy \<Rightarrow> guy" where
  "guy_step GuyWaitElapsed g = guy_waitElapsed g"
| "guy_step (GuyUpdate dt) g = guy_onStateUpdate dt g"

fun guy_run :: "guy_event list \<Rightarrow> guy \<Rightarrow> guy" where
  "guy_run [] g = g"
| "guy_run (ev # evs) g = guy_run evs (guy_step ev g)"

text \<open>The horizontal velocity that the state update callbacks give the guy.\<close>

definition guy_velocity :: "guy \<Rightarrow> real" where
  "guy_velocity g =
     (if g_state g = ''left'' then - g_speed g else if g_state g = ''right'' then g_speed g else 0)"

text \<open>The state the guy is in after \<open>n\<close> of its waits have completed.\<close>

definition guy_phase :: "nat \<Rightarrow> string" where
  "guy_phase n = (if n = 0 then ''idle'' else if odd n then ''left'' else ''right'')"

definition elapsed_waits :: "guy_event list \<Rightarrow> nat" where
  "elapsed_waits evs = length (filter (\<lambda>ev. ev = GuyWaitElapsed) evs)"

text \<open>The guy between two completions of waits, \<open>n\<close> of them having completed.\<close>

definition guy_in_phase :: "nat \<Rightarrow> guy \<Rightarrow> bool" where
  "guy_in_phase n g \<longleftrightarrow>
     g_state g = guy_phase n
     \<and> g_waits g = [(if n = 0 then 1 else 2, guy_phase (Suc n))]
     \<and> g_clock g = (if n = 0 then 0 else 2 * real n - 1)
     \<and> g_flipX g = (n \<noteq> 0 \<and> even n)
     \<and> g_speed g = 100"

text \<open>The flame waiting in Idle, its one wait pending.\<close>

definition flame_idle :: "flame \<Rightarrow> bool" where
  "flame_idle f \<longleftrightarrow> f_state f = ''idle'' \<and> f_waits f = [(1, ''jump'')]"

section \<open>Destruction of entities (engine)\<close>


section \<open>Scenes and periodic bird spawning (main.ts, entities.ts)\<close>



definition possibleSpeeds :: "real list" where
  "possibleSpeeds = [100, 200, 300]"

definition round_even :: "real \<Rightarrow> int" where
  "round_even x =
     (if x - of_int \<lfloor>x\<rfloor> < 1 / 2 then \<lfloor>x\<rfloor>
      else if 1 / 2 < x - of_int \<lfloor>x\<rfloor> then \<lfloor>x\<rfloor> + 1
      else if even \<lfloor>x\<rfloor> then \<lfloor>x\<rfloor> else \<lfloor>x\<rfloor> + 1)"

definition double_product_floor :: "real \<Rightarrow> int" where
  "double_product_floor p =
     (if p < 1 / 2 then 0
      else if p < 1 then \<lfloor>of_int (round_even (p * 2 ^ 53)) / (2 ^ 53 :: real)\<rfloor>
      else if p < 2 then \<lfloor>of_int (round_even (p * 2 ^ 52)) / (2 ^ 52 :: real)\<rfloor>
      else \<lfloor>of_int (round_even (p * 2 ^ 51)) / (2 ^ 51 :: real)\<rfloor>)"

definition randomSpeed :: "real \<Rightarrow> real option" where
  "randomSpeed r =
     (if 0 \<le> r \<and> r < 1 \<and> double_product_floor (r * real (length possibleSpeeds)) < int (length possibleSpeeds)
      then Some (possibleSpeeds ! nat (double_product_floor (r * real (length possibleSpeeds))))
      else None)"












text \<open>
  The input of one tick: the input and contact events, and for each flame, by its
  position in the scene, whether it stands on a platform (\<open>isGrounded()\<close>).
\<close>

record tick_input =
  delivered :: "event list"
  grounded :: "nat \<Rightarrow> bool"






section \<open>Properties of the global game state\<close>

lemma apply_setter_scenes: "scenes (apply_setter c g) = scenes g"
  by (cases c) (simp_all add: setCurrentScene_def setNextScene_def)

lemma apply_setters_scenes: "scenes (apply_setters cs g) = scenes g"
  by (induction cs arbitrary: g) (simp_all add: apply_setter_scenes)

lemma apply_setter_current:
  "currentScene g \<in> set (scenes g) \<Longrightarrow>
   currentScene (apply_setter c g) \<in> set (scenes (apply_setter c g))"
  by (cases c) (simp_all add: setCurrentScene_def setNextScene_def)

lemma apply_setter_next:
  "nextScene g = '''' \<or> nextScene g \<in> set (scenes g) \<Longrightarrow>
   nextScene (apply_setter c g) = '''' \<or> nextScene (apply_setter c g) \<in> set (scenes (apply_setter c g))"
  by (cases c) (simp_all add: setCurrentScene_def setNextScene_def)

lemma apply_setters_current:
  "currentScene g \<in> set (scenes g) \<Longrightarrow>
   currentScene (apply_setters cs g) \<in> set (scenes g)"
proof (induction cs arbitrary: g)
  case Nil
  then show ?case by simp
next
  case (Cons c cs)
  have "currentScene (apply_setter c g) \<in> set (scenes (apply_setter c g))"
    using Cons.prems by (rule apply_setter_current)
  then have "currentScene (apply_setters cs (apply_setter c g)) \<in> set (scenes (apply_setter c g))"
    by (rule Cons.IH)
  then show ?case by (simp add: apply_setter_scenes)
qed

lemma apply_setters_next:
  "nextScene g = '''' \<or> nextScene g \<in> set (scenes g) \<Longrightarrow>
   nextScene (apply_setters cs g) = '''' \<or> nextScene (apply_setters cs g) \<in> set (scenes g)"
proof (induction cs arbitrary: g)
  case Nil
  then show ?case by simp
next
  case (Cons c cs)
  have "nextScene (apply_setter c g) = '''' \<or> nextScene (apply_setter c g) \<in> set (scenes (apply_setter c g))"
    using Cons.prems by (rule apply_setter_next)
  then have "nextScene (apply_setters cs (apply_setter c g)) = ''''
      \<or> nextScene (apply_setters cs (apply_setter c g)) \<in> set (scenes (apply_setter c g))"
    by (rule Cons.IH)
  then show ?case by (simp add: apply_setter_scenes)
qed

text \<open>
  Claim C10. For every string \<open>s\<close> outside the scene list
  \<open>[level-1, level-2, end]\<close>, \<open>setCurrentScene s\<close> and \<open>setNextScene s\<close> leave the state
  reached by any sequence of setter calls unchanged; and after any sequence of
  setter calls \<open>currentScene\<close> is a member of the scene list and \<open>nextScene\<close> is the
  initial empty string or a member of the scene list.
\<close>

theorem setters_guarded_by_scene_list:
  assumes "s \<notin> set [''level-1'', ''level-2'', ''end'']"
  shows "setCurrentScene s (apply_setters cs globalGameState_init) = apply_setters cs globalGameState_init
       \<and> setNextScene s (apply_setters cs globalGameState_init) = apply_setters cs globalGameState_init
       \<and> currentScene (apply_setters cs globalGameState_init) \<in> set [''level-1'', ''level-2'', ''end'']
       \<and> (nextScene (apply_setters cs globalGameState_init) = ''''
            \<or> nextScene (apply_setters cs globalGameState_init) \<in> set [''level-1'', ''level-2'', ''end''])"
proof -
  let ?g = "apply_setters cs globalGameState_init"
  have sc: "scenes ?g = [''level-1'', ''level-2'', ''end'']"
    by (simp add: apply_setters_scenes globalGameState_init_def)
  have a: "setCurrentScene s ?g = ?g"
    using assms sc by (simp add: setCurrentScene_def)
  have b: "setNextScene s ?g = ?g"
    using assms sc by (simp add: setNextScene_def)
  have "currentScene ?g \<in> set (scenes globalGameState_init)"
    by (rule apply_setters_current) (simp add: globalGameState_init_def)
  then have c: "currentScene ?g \<in> set [''level-1'', ''level-2'', ''end'']"
    by (simp add: globalGameState_init_def)
  have "nextScene ?g = '''' \<or> nextScene ?g \<in> set (scenes globalGameState_init)"
    by (rule apply_setters_next) (simp add: globalGameState_init_def)
  then have d: "nextScene ?g = '''' \<or> nextScene ?g \<in> set [''level-1'', ''level-2'', ''end'']"
    by (simp add: globalGameState_init_def)
  from a b c d show ?thesis by blast
qed

theorem setters_guarded_by_scene_list_witness:
  "''level-3'' \<notin> set [''level-1'', ''level-2'', ''end'']
   \<and> setCurrentScene ''level-3''
        (apply_setters [SetCurrentScene ''level-2'', SetNextScene ''boss'', SetNextScene ''level-1'']
           globalGameState_init)
     = \<lparr>scenes = [''level-1'', ''level-2'', ''end''], nextScene = ''level-1'', currentScene = ''level-2''\<rparr>
   \<and> currentScene
        (apply_setters [SetCurrentScene ''level-2'', SetNextScene ''boss'', SetNextScene ''level-1'']
           globalGameState_init) \<in> set [''level-1'', ''level-2'', ''end'']"
  using setters_guarded_by_scene_list
    [of "''level-3''" "[SetCurrentScene ''level-2'', SetNextScene ''boss'', SetNextScene ''level-1'']"]
  by (simp add: globalGameState_init_def setCurrentScene_def setNextScene_def)

section \<open>Properties of the player and the capture protocol\<close>

lemmas handler_defs =
  player_onCollide_enemy_def player_onCollide_exit_def player_onUpdate_def onKeyDown_def
  onKeyPress_def onKeyRelease_def waitElapsed_def star_onCollide_platform_def
  enemy_onCollide_inhaleZone_def enemy_onCollideEnd_inhaleZone_def
  enemy_onCollide_shootingStar_def enemy_onUpdate_def

lemmas world_defs =
  level1_world_def makePlayer_def no_enemy_inhalable_def globalGameState_init_def
  setCurrentScene_def setNextScene_def

text \<open>
  Claim C1, evaluated on the handler. A player made with health 3 takes three
  sequential contacts with enemies that are not inhalable. Each contact lowers the
  health by one, so the third brings it to 0; but the handler tests \<open>hp() === 0\<close>
  before it calls \<open>hurt()\<close>, so the contact on which the health reaches 0 neither
  destroys the player nor restarts the scene: after the three contacts the engine has
  been asked for the six opacity tweens only. The player is destroyed and the scene
  \<open>level-1\<close> restarted, once, by a fourth contact.
\<close>

theorem lethal_damage_three_contacts:
  "hp (player (run [PlayerCollideEnemy 0, PlayerCollideEnemy 1, PlayerCollideEnemy 0]
        (level1_world 10 20 no_enemy_inhalable))) = 0
   \<and> calls (run [PlayerCollideEnemy 0, PlayerCollideEnemy 1, PlayerCollideEnemy 0]
        (level1_world 10 20 no_enemy_inhalable))
     = [Tween 0 0.05, Tween 1 0.05, Tween 0 0.05, Tween 1 0.05, Tween 0 0.05, Tween 1 0.05]
   \<and> calls (run [PlayerCollideEnemy 0, PlayerCollideEnemy 1, PlayerCollideEnemy 0, PlayerCollideEnemy 2]
        (level1_world 10 20 no_enemy_inhalable))
     = [Tween 0 0.05, Tween 1 0.05, Tween 0 0.05, Tween 1 0.05, Tween 0 0.05, Tween 1 0.05,
        Destroy PlayerObj, Go ''level-1'']
   \<and> hp (player (run [PlayerCollideEnemy 0, PlayerCollideEnemy 1, PlayerCollideEnemy 0, PlayerCollideEnemy 2]
        (level1_world 10 20 no_enemy_inhalable))) = 0"
  by (simp add: handler_defs world_defs)

subsection \<open>The inhalable flag\<close>

lemma step_isInhalable:
  "isInhalable (enemies (step ev w) i) =
     (if ev = EnemyCollideInhaleZone i then True
      else if ev = EnemyCollideEndInhaleZone i then False
      else isInhalable (enemies w i))"
  by (cases ev) (auto simp: handler_defs split: list.splits)

text \<open>
  The flag of an enemy is true although the player is not inhaling: when the enemy
  enters the capture zone of a player that never inhaled, and when the player stops
  inhaling while the enemy is still in the zone.
\<close>

theorem inhalable_flag_counterexample:
  "isInhalable (enemies (run [EnemyCollideInhaleZone 0] (level1_world 10 20 no_enemy_inhalable)) 0)
   \<and> \<not> isInhaling (player (run [EnemyCollideInhaleZone 0] (level1_world 10 20 no_enemy_inhalable)))
   \<and> isInhalable (enemies (run [KeyDown ''z'' 0.016, EnemyCollideInhaleZone 0, KeyRelease ''z'']
         (level1_world 10 20 no_enemy_inhalable)) 0)
   \<and> \<not> isInhaling (player (run [KeyDown ''z'' 0.016, EnemyCollideInhaleZone 0, KeyRelease ''z'']
         (level1_world 10 20 no_enemy_inhalable)))"
  by (simp add: handler_defs world_defs)

text \<open>
  Claim C2, amended. For every enemy the flag \<open>isInhalable\<close> is set to true by each
  begin of overlap with the capture zone and to false by each end of overlap, whatever
  state the player is in, and no other handler writes it: after any sequence of events
  it is true exactly when the latest capture-zone event of that enemy is a begin of
  overlap (and keeps its earlier value when there is none).
\<close>

theorem inhalable_flag_tracks_zone:
  "isInhalable (enemies (run evs w) i) = inZone i evs (isInhalable (enemies w i))"
  by (induction evs arbitrary: w) (simp_all add: step_isInhalable)

subsection \<open>Capture\<close>

lemma step_not_both:
  "\<not> (isInhaling (player w) \<and> isFull (player w)) \<Longrightarrow>
   \<not> (isInhaling (player (step ev w)) \<and> isFull (player (step ev w)))"
  by (cases ev) (auto simp: handler_defs split: list.splits)

lemma run_not_both:
  "\<not> (isInhaling (player w) \<and> isFull (player w)) \<Longrightarrow>
   \<not> (isInhaling (player (run evs w)) \<and> isFull (player (run evs w)))"
proof (induction evs arbitrary: w)
  case Nil
  then show ?case by simp
next
  case (Cons ev evs)
  from Cons.prems have "\<not> (isInhaling (player (step ev w)) \<and> isFull (player (step ev w)))"
    by (rule step_not_both)
  then show ?case using Cons.IH by simp
qed

lemma contact_when_not_inhaling:
  "\<not> isInhaling (player w) \<Longrightarrow>
   calls (player_onCollide_enemy j w) = calls w @ damage_calls w
   \<and> isFull (player (player_onCollide_enemy j w)) = isFull (player w)
   \<and> isInhaling (player (player_onCollide_enemy j w)) = isInhaling (player w)"
  by (simp add: player_onCollide_enemy_def damage_calls_def)

text \<open>
  The contact that captures an enemy leaves the inhale effect visible: after the player
  starts inhaling, the enemy enters the capture zone and touches the player, the enemy
  is destroyed and the player is Full, and the opacity of the effect is still 1.
\<close>

theorem capture_effect_counterexample:
  "isFull (player (run [KeyDown ''z'' 0.016, EnemyCollideInhaleZone 0, PlayerCollideEnemy 0]
       (level1_world 10 20 no_enemy_inhalable)))
   \<and> calls (run [KeyDown ''z'' 0.016, EnemyCollideInhaleZone 0, PlayerCollideEnemy 0]
       (level1_world 10 20 no_enemy_inhalable)) = [Destroy (EnemyObj 0)]
   \<and> inhaleEffect_opacity (run [KeyDown ''z'' 0.016, EnemyCollideInhaleZone 0, PlayerCollideEnemy 0]
       (level1_world 10 20 no_enemy_inhalable)) = 1"
  by (simp add: handler_defs world_defs)

text \<open>
  Claim C3, amended. Whenever the player is Inhaling and touches an enemy whose flag
  \<open>isInhalable\<close> is true, exactly that enemy is destroyed and the player goes from
  Inhaling to Full; the contact itself leaves the inhale effect as it is, and the
  effect is hidden by the next key-down event of the inhale key while the player is
  Full. A further contact after the capture captures nothing (it takes the damage
  path and the player stays Full), and so does every contact in a state, reached from
  the start of the scene, in which the player is Full.
\<close>

theorem capture_on_contact:
  assumes "isInhaling (player w)" and "isInhalable (enemies w i)"
  shows "calls (player_onCollide_enemy i w) = calls w @ [Destroy (EnemyObj i)]
       \<and> isFull (player (player_onCollide_enemy i w))
       \<and> \<not> isInhaling (player (player_onCollide_enemy i w))
       \<and> inhaleEffect_opacity (player_onCollide_enemy i w) = inhaleEffect_opacity w
       \<and> inhaleEffect_opacity (onKeyDown ''z'' dt (player_onCollide_enemy i w)) = 0
       \<and> isFull (player (onKeyDown ''z'' dt (player_onCollide_enemy i w)))
       \<and> calls (player_onCollide_enemy j (player_onCollide_enemy i w))
           = calls (player_onCollide_enemy i w) @ damage_calls w
       \<and> isFull (player (player_onCollide_enemy j (player_onCollide_enemy i w)))
       \<and> (isFull (player (run evs (level1_world x y es))) \<longrightarrow>
            calls (player_onCollide_enemy j (run evs (level1_world x y es)))
              = calls (run evs (level1_world x y es)) @ damage_calls (run evs (level1_world x y es))
            \<and> isFull (player (player_onCollide_enemy j (run evs (level1_world x y es)))))"
proof -
  let ?w1 = "player_onCollide_enemy i w"
  have a: "calls ?w1 = calls w @ [Destroy (EnemyObj i)]" "isFull (player ?w1)"
    "\<not> isInhaling (player ?w1)" "inhaleEffect_opacity ?w1 = inhaleEffect_opacity w"
    using assms by (simp_all add: player_onCollide_enemy_def)
  have b: "inhaleEffect_opacity (onKeyDown ''z'' dt ?w1) = 0" "isFull (player (onKeyDown ''z'' dt ?w1))"
    using a(2) by (simp_all add: onKeyDown_def)
  have dc: "damage_calls ?w1 = damage_calls w"
    using assms by (simp add: player_onCollide_enemy_def damage_calls_def)
  have c: "calls (player_onCollide_enemy j ?w1) = calls ?w1 @ damage_calls w"
    "isFull (player (player_onCollide_enemy j ?w1))"
    using contact_when_not_inhaling [OF a(3), of j] a(2) dc by simp_all
  let ?r = "run evs (level1_world x y es)"
  have inv: "\<not> (isInhaling (player ?r) \<and> isFull (player ?r))"
    by (rule run_not_both) (simp add: level1_world_def makePlayer_def)
  have d: "isFull (player ?r) \<longrightarrow>
            calls (player_onCollide_enemy j ?r) = calls ?r @ damage_calls ?r
            \<and> isFull (player (player_onCollide_enemy j ?r))"
  proof
    assume f: "isFull (player ?r)"
    with inv have "\<not> isInhaling (player ?r)" by blast
    from contact_when_not_inhaling [OF this, of j] f
    show "calls (player_onCollide_enemy j ?r) = calls ?r @ damage_calls ?r
            \<and> isFull (player (player_onCollide_enemy j ?r))" by simp
  qed
  from a b c d show ?thesis by blast
qed

theorem capture_on_contact_witness:
  "isInhaling (player (run [KeyDown ''z'' 0.016, EnemyCollideInhaleZone 0] (level1_world 10 20 no_enemy_inhalable)))
   \<and> isInhalable (enemies (run [KeyDown ''z'' 0.016, EnemyCollideInhaleZone 0] (level1_world 10 20 no_enemy_inhalable)) 0)
   \<and> isFull (player (run [KeyDown ''z'' 0.016, EnemyCollideInhaleZone 0, PlayerCollideEnemy 0]
         (level1_world 10 20 no_enemy_inhalable)))
   \<and> calls (player_onCollide_enemy 0
         (run [KeyDown ''z'' 0.016, EnemyCollideInhaleZone 0] (level1_world 10 20 no_enemy_inhalable)))
       = [Destroy (EnemyObj 0)]
   \<and> calls (player_onCollide_enemy 1
         (run [KeyDown ''z'' 0.016, EnemyCollideInhaleZone 0, PlayerCollideEnemy 0]
            (level1_world 10 20 no_enemy_inhalable)))
       = [Destroy (EnemyObj 0), Tween 0 0.05, Tween 1 0.05]"
  using capture_on_contact
    [where w = "run [KeyDown ''z'' 0.016, EnemyCollideInhaleZone 0] (level1_world 10 20 no_enemy_inhalable)"
       and i = 0 and j = 1 and dt = "0.016"
       and evs = "[KeyDown ''z'' 0.016, EnemyCollideInhaleZone 0, PlayerCollideEnemy 0]"
       and x = 10 and y = 20 and es = no_enemy_inhalable]
  by (simp add: handler_defs world_defs damage_calls_def)

subsection \<open>Destruction on contact\<close>










subsection \<open>Shooting\<close>

text \<open>
  The player is Idle at once after the release that shoots: neither Full nor Inhaling
  while the one-second wait is still pending, with the inhaling animation showing; and
  a key-down of the inhale key makes it Inhaling again before that wait completes.
\<close>

theorem release_cooldown_counterexample:
  "\<not> isFull (player (run [KeyDown ''z'' 0.016, EnemyCollideInhaleZone 0, PlayerCollideEnemy 0, KeyRelease ''z'']
        (level1_world 10 20 no_enemy_inhalable)))
   \<and> \<not> isInhaling (player (run [KeyDown ''z'' 0.016, EnemyCollideInhaleZone 0, PlayerCollideEnemy 0, KeyRelease ''z'']
        (level1_world 10 20 no_enemy_inhalable)))
   \<and> pending (run [KeyDown ''z'' 0.016, EnemyCollideInhaleZone 0, PlayerCollideEnemy 0, KeyRelease ''z'']
        (level1_world 10 20 no_enemy_inhalable)) = [(1, ''kirbIdle'')]
   \<and> curAnim (player (run [KeyDown ''z'' 0.016, EnemyCollideInhaleZone 0, PlayerCollideEnemy 0, KeyRelease ''z'']
        (level1_world 10 20 no_enemy_inhalable))) = ''kirbInhaling''
   \<and> isInhaling (player (run [KeyDown ''z'' 0.016, EnemyCollideInhaleZone 0, PlayerCollideEnemy 0, KeyRelease ''z'',
                              KeyDown ''z'' 0.016]
        (level1_world 10 20 no_enemy_inhalable)))
   \<and> pending (run [KeyDown ''z'' 0.016, EnemyCollideInhaleZone 0, PlayerCollideEnemy 0, KeyRelease ''z'',
                              KeyDown ''z'' 0.016]
        (level1_world 10 20 no_enemy_inhalable)) = [(1, ''kirbIdle'')]"
  by (simp add: handler_defs world_defs)

text \<open>
  Claim C6, amended. When the inhale input is released while the player is Full,
  exactly one projectile is spawned, moving at the fixed speed 800 in the player's
  current facing direction (left when \<open>direction\<close> is \<open>left\<close>, right otherwise); the
  player leaves Full in the same handler, its sprite switches to the inhaling
  animation, and a wait of one second is started whose completion plays the idle
  animation.
\<close>

theorem release_when_full:
  assumes "isFull (player w)"
  shows "stars (onKeyRelease ''z'' w) = stars w @ [shootingStar (player w)]
       \<and> s_speed (shootingStar (player w)) = 800
       \<and> s_dir_x (shootingStar (player w)) = (if direction (player w) = ''left'' then - 1 else 1)
       \<and> \<not> isFull (player (onKeyRelease ''z'' w))
       \<and> isInhaling (player (onKeyRelease ''z'' w)) = isInhaling (player w)
       \<and> curAnim (player (onKeyRelease ''z'' w)) = ''kirbInhaling''
       \<and> pending (onKeyRelease ''z'' w) = pending w @ [(1, ''kirbIdle'')]
       \<and> (pending w = [] \<longrightarrow> curAnim (player (waitElapsed (onKeyRelease ''z'' w))) = ''kirbIdle'')"
  using assms by (simp add: onKeyRelease_def shootingStar_def waitElapsed_def)

theorem release_when_full_witness:
  "isFull (player (run [KeyDown ''left'' 0.016, KeyDown ''z'' 0.016, EnemyCollideInhaleZone 0, PlayerCollideEnemy 0]
        (level1_world 10 20 no_enemy_inhalable)))
   \<and> pending (run [KeyDown ''left'' 0.016, KeyDown ''z'' 0.016, EnemyCollideInhaleZone 0, PlayerCollideEnemy 0]
        (level1_world 10 20 no_enemy_inhalable)) = []
   \<and> map s_dir_x (stars (onKeyRelease ''z''
        (run [KeyDown ''left'' 0.016, KeyDown ''z'' 0.016, EnemyCollideInhaleZone 0, PlayerCollideEnemy 0]
        (level1_world 10 20 no_enemy_inhalable)))) = [- 1]
   \<and> curAnim (player (waitElapsed (onKeyRelease ''z''
        (run [KeyDown ''left'' 0.016, KeyDown ''z'' 0.016, EnemyCollideInhaleZone 0, PlayerCollideEnemy 0]
        (level1_world 10 20 no_enemy_inhalable))))) = ''kirbIdle''"
  using release_when_full
    [of "run [KeyDown ''left'' 0.016, KeyDown ''z'' 0.016, EnemyCollideInhaleZone 0, PlayerCollideEnemy 0]
        (level1_world 10 20 no_enemy_inhalable)"]
  by (simp add: handler_defs world_defs shootingStar_def)

section \<open>Properties of the enemy state machines\<close>

lemmas flame_defs =
  flame_enterState_def enterState_def flame_states_def flame_onStateEnter_def flame_onStateEnd_def
  flame_onStateUpdate_def flame_waitElapsed_def makeFlameEnemy_def

lemmas guy_defs =
  guy_enterState_def enterState_def guy_states_def guy_onStateEnter_def guy_onStateEnd_def
  guy_onStateUpdate_def guy_waitElapsed_def makeGuyEnemy_def

text \<open>
  Claim C5. For the flame (states idle, jump) and the guy (states idle, left, right,
  jump) and every name outside the declared set, \<open>enterState\<close> of that name returns the
  object as it was: the current state is unchanged and no enter or exit callback has
  run.
\<close>

theorem enterState_undeclared_ignored:
  "(name \<notin> set flame_states \<longrightarrow>
      flame_enterState name f = f \<and> f_state (flame_enterState name f) = f_state f
      \<and> f_fired (flame_enterState name f) = f_fired f)
   \<and> (name \<notin> set guy_states \<longrightarrow>
      guy_enterState name g = g \<and> g_state (guy_enterState name g) = g_state g
      \<and> g_fired (guy_enterState name g) = g_fired g)"
  by (simp add: flame_enterState_def guy_enterState_def enterState_def)

theorem enterState_undeclared_ignored_witness:
  "''fly'' \<notin> set flame_states \<and> ''fly'' \<notin> set guy_states
   \<and> flame_enterState ''fly'' (makeFlameEnemy 1 2) = makeFlameEnemy 1 2
   \<and> guy_enterState ''fly'' (makeGuyEnemy 1 2) = makeGuyEnemy 1 2
   \<and> f_fired (flame_enterState ''jump'' (makeFlameEnemy 1 2)) = [(''enter'', ''idle''), (''enter'', ''jump'')]"
  using enterState_undeclared_ignored [of "''fly''" "makeFlameEnemy 1 2" "makeGuyEnemy 1 2"]
  by (simp add: flame_defs guy_defs)

subsection \<open>The flame\<close>

lemma flame_idle_updates: "flame_idle f \<Longrightarrow> flame_run (map FlameUpdate gs) f = f"
  by (induction gs) (simp_all add: flame_idle_def flame_onStateUpdate_def)

lemma flame_idle_elapsed:
  "flame_idle f \<Longrightarrow>
     flame_waitElapsed f
       = f\<lparr>f_state := ''jump'', f_waits := [], f_impulses := f_impulses f @ [1000],
           f_fired := f_fired f @ [(''enter'', ''jump'')]\<rparr>"
  by (simp add: flame_idle_def flame_defs)

lemma flame_airborne:
  "f_state f = ''jump'' \<Longrightarrow> flame_run (replicate n (FlameUpdate False)) f = f"
  by (induction n) (simp_all add: flame_onStateUpdate_def)

lemma flame_landing:
  "f_state f = ''jump'' \<Longrightarrow>
     flame_onStateUpdate True f
       = f\<lparr>f_state := ''idle'', f_waits := f_waits f @ [(1, ''jump'')],
           f_fired := f_fired f @ [(''enter'', ''idle'')]\<rparr>"
  by (simp add: flame_defs)

lemma flame_run_append: "flame_run (xs @ ys) f = flame_run ys (flame_run xs f)"
  by (induction xs arbitrary: f) simp_all

lemma flame_cycle_run:
  assumes "flame_idle f"
  shows "flame_run (flame_cycle c) f
           = f\<lparr>f_impulses := f_impulses f @ [1000],
               f_fired := f_fired f @ [(''enter'', ''jump''), (''enter'', ''idle'')]\<rparr>"
proof -
  let ?j = "flame_waitElapsed f"
  have j: "?j = f\<lparr>f_state := ''jump'', f_waits := [], f_impulses := f_impulses f @ [1000],
           f_fired := f_fired f @ [(''enter'', ''jump'')]\<rparr>"
    using assms by (rule flame_idle_elapsed)
  then have sj: "f_state ?j = ''jump''" by simp
  have "flame_run (flame_cycle c) f = flame_onStateUpdate True ?j"
    by (simp add: flame_cycle_def flame_run_append flame_idle_updates [OF assms] flame_airborne [OF sj])
  also have "\<dots> = ?j\<lparr>f_state := ''idle'', f_waits := f_waits ?j @ [(1, ''jump'')],
           f_fired := f_fired ?j @ [(''enter'', ''idle'')]\<rparr>"
    using sj by (rule flame_landing)
  also have "\<dots> = f\<lparr>f_impulses := f_impulses f @ [1000],
               f_fired := f_fired f @ [(''enter'', ''jump''), (''enter'', ''idle'')]\<rparr>"
    using assms by (simp add: j flame_idle_def)
  finally show ?thesis .
qed

lemma flame_cycles_run:
  "flame_idle f \<Longrightarrow>
   flame_idle (flame_run (concat (map flame_cycle cs)) f)
   \<and> f_impulses (flame_run (concat (map flame_cycle cs)) f) = f_impulses f @ replicate (length cs) 1000"
proof (induction cs arbitrary: f)
  case Nil
  then show ?case by simp
next
  case (Cons c cs)
  let ?f1 = "flame_run (flame_cycle c) f"
  have eq: "?f1 = f\<lparr>f_impulses := f_impulses f @ [1000],
               f_fired := f_fired f @ [(''enter'', ''jump''), (''enter'', ''idle'')]\<rparr>"
    using Cons.prems by (rule flame_cycle_run)
  then have idle: "flame_idle ?f1" using Cons.prems by (simp add: flame_idle_def)
  have imp: "f_impulses ?f1 = f_impulses f @ [1000]" using eq by simp
  from Cons.IH [OF idle] imp show ?case
    by (simp add: flame_run_append replicate_append_same)
qed

lemma makeFlameEnemy_idle: "flame_idle (makeFlameEnemy x y)"
  by (simp add: flame_idle_def flame_defs)

text \<open>
  Claim C8. After any number of completed cycles the flame is in Idle with exactly one
  wait of 1 second pending and has applied one impulse of force 1000 per cycle. From
  there: frames change nothing while it waits; the completion of the 1-second wait
  enters Jump and applies exactly one more impulse; frames on which the grounded check
  is false leave it in Jump, unchanged; and the first frame on which the check is true
  returns it to Idle with a new 1-second wait and no further impulse, which is where
  the next cycle starts.
\<close>

theorem flame_jump_cycle:
  "f_state (flame_run (concat (map flame_cycle cs)) (makeFlameEnemy x y)) = ''idle''
   \<and> f_waits (flame_run (concat (map flame_cycle cs)) (makeFlameEnemy x y)) = [(1, ''jump'')]
   \<and> f_impulses (flame_run (concat (map flame_cycle cs)) (makeFlameEnemy x y)) = replicate (length cs) 1000
   \<and> flame_run (map FlameUpdate gs) (flame_run (concat (map flame_cycle cs)) (makeFlameEnemy x y))
       = flame_run (concat (map flame_cycle cs)) (makeFlameEnemy x y)
   \<and> f_state (flame_waitElapsed (flame_run (concat (map flame_cycle cs)) (makeFlameEnemy x y))) = ''jump''
   \<and> f_impulses (flame_waitElapsed (flame_run (concat (map flame_cycle cs)) (makeFlameEnemy x y)))
       = replicate (length cs) 1000 @ [1000]
   \<and> flame_run (replicate n (FlameUpdate False))
        (flame_waitElapsed (flame_run (concat (map flame_cycle cs)) (makeFlameEnemy x y)))
       = flame_waitElapsed (flame_run (concat (map flame_cycle cs)) (makeFlameEnemy x y))
   \<and> f_state (flame_onStateUpdate True
        (flame_waitElapsed (flame_run (concat (map flame_cycle cs)) (makeFlameEnemy x y)))) = ''idle''
   \<and> f_waits (flame_onStateUpdate True
        (flame_waitElapsed (flame_run (concat (map flame_cycle cs)) (makeFlameEnemy x y)))) = [(1, ''jump'')]
   \<and> f_impulses (flame_onStateUpdate True
        (flame_waitElapsed (flame_run (concat (map flame_cycle cs)) (makeFlameEnemy x y))))
       = replicate (length cs) 1000 @ [1000]"
proof -
  let ?f = "flame_run (concat (map flame_cycle cs)) (makeFlameEnemy x y)"
  let ?j = "flame_waitElapsed ?f"
  have c: "flame_idle ?f" "f_impulses ?f = replicate (length cs) 1000"
    using flame_cycles_run [OF makeFlameEnemy_idle, of cs x y] by (simp_all add: flame_defs)
  have j: "?j = ?f\<lparr>f_state := ''jump'', f_waits := [], f_impulses := f_impulses ?f @ [1000],
           f_fired := f_fired ?f @ [(''enter'', ''jump'')]\<rparr>"
    using c(1) by (rule flame_idle_elapsed)
  have sj: "f_state ?j = ''jump''" by (simp add: j)
  have ij: "f_impulses ?j = replicate (length cs) 1000 @ [1000]" by (simp add: j c(2))
  have wj: "f_waits ?j = []" by (simp add: j)
  have l: "flame_onStateUpdate True ?j = ?j\<lparr>f_state := ''idle'', f_waits := f_waits ?j @ [(1, ''jump'')],
           f_fired := f_fired ?j @ [(''enter'', ''idle'')]\<rparr>"
    using sj by (rule flame_landing)
  have l1: "f_state (flame_onStateUpdate True ?j) = ''idle''" by (simp add: l)
  have l2: "f_waits (flame_onStateUpdate True ?j) = [(1, ''jump'')]" by (simp add: l wj)
  have l3: "f_impulses (flame_onStateUpdate True ?j) = replicate (length cs) 1000 @ [1000]"
    by (simp add: l ij)
  have u: "flame_run (map FlameUpdate gs) ?f = ?f" using c(1) by (rule flame_idle_updates)
  have a: "flame_run (replicate n (FlameUpdate False)) ?j = ?j" using sj by (rule flame_airborne)
  from c u sj ij a l1 l2 l3 show ?thesis unfolding flame_idle_def by blast
qed

subsection \<open>The guy\<close>

lemma makeGuyEnemy_phase: "guy_in_phase 0 (makeGuyEnemy x y)"
  by (simp add: guy_in_phase_def guy_phase_def guy_defs)

lemma guy_phase_neq: "guy_phase n \<noteq> ''jump''" "guy_phase (Suc n) \<noteq> ''idle''"
  by (simp_all add: guy_phase_def)

lemma guy_waitElapsed_phase:
  assumes "guy_in_phase n g"
  shows "guy_in_phase (Suc n) (guy_waitElapsed g)"
proof (cases "even n")
  case True
  with assms show ?thesis
    by (auto simp: guy_in_phase_def guy_phase_def guy_defs)
next
  case False
  with assms show ?thesis
    by (auto simp: guy_in_phase_def guy_phase_def guy_defs)
qed

lemma guy_update_phase:
  "guy_in_phase n g \<Longrightarrow> guy_in_phase n (guy_onStateUpdate dt g)"
  by (simp add: guy_in_phase_def guy_onStateUpdate_def)

lemma guy_run_phase:
  "guy_in_phase n g \<Longrightarrow> guy_in_phase (n + elapsed_waits evs) (guy_run evs g)"
proof (induction evs arbitrary: n g)
  case Nil
  then show ?case by (simp add: elapsed_waits_def)
next
  case (Cons ev evs)
  show ?case
  proof (cases ev)
    case GuyWaitElapsed
    have "guy_in_phase (Suc n) (guy_waitElapsed g)"
      using Cons.prems by (rule guy_waitElapsed_phase)
    from Cons.IH [OF this] show ?thesis
      using GuyWaitElapsed by (simp add: elapsed_waits_def)
  next
    case (GuyUpdate dt)
    have "guy_in_phase n (guy_onStateUpdate dt g)"
      using Cons.prems by (rule guy_update_phase)
    from Cons.IH [OF this] show ?thesis
      using GuyUpdate by (simp add: elapsed_waits_def)
  qed
qed

text \<open>
  Claim C7. Whatever frames occur in between, after \<open>n\<close> of its waits have completed
  the guy is in Idle for \<open>n = 0\<close>, in MoveLeft for odd \<open>n\<close> and in MoveRight for even
  \<open>n > 0\<close>, with exactly one wait pending that leads to the other direction. Idle begins
  at time 0 and ends 1 second later; the \<open>n\<close>-th moving phase begins at \<open>2n - 1\<close> seconds
  and ends exactly 2 seconds later. In a moving phase each frame displaces the guy by
  the fixed speed 100 times the frame's duration, to the left in MoveLeft and to the
  right in MoveRight, and the sprite's flip changes with the phase.
\<close>

theorem guy_patrol:
  "g_state (guy_run evs (makeGuyEnemy x y)) = guy_phase (elapsed_waits evs)
   \<and> g_waits (guy_run evs (makeGuyEnemy x y))
       = [(if elapsed_waits evs = 0 then 1 else 2, guy_phase (Suc (elapsed_waits evs)))]
   \<and> g_clock (guy_run evs (makeGuyEnemy x y))
       = (if elapsed_waits evs = 0 then 0 else 2 * real (elapsed_waits evs) - 1)
   \<and> g_clock (guy_waitElapsed (guy_run evs (makeGuyEnemy x y)))
       = g_clock (guy_run evs (makeGuyEnemy x y)) + (if elapsed_waits evs = 0 then 1 else 2)
   \<and> g_flipX (guy_run evs (makeGuyEnemy x y)) = (elapsed_waits evs \<noteq> 0 \<and> even (elapsed_waits evs))
   \<and> guy_velocity (guy_run evs (makeGuyEnemy x y))
       = (if elapsed_waits evs = 0 then 0 else if odd (elapsed_waits evs) then - 100 else 100)
   \<and> g_pos_x (guy_onStateUpdate dt (guy_run evs (makeGuyEnemy x y)))
       = g_pos_x (guy_run evs (makeGuyEnemy x y)) + guy_velocity (guy_run evs (makeGuyEnemy x y)) * dt"
proof -
  let ?g = "guy_run evs (makeGuyEnemy x y)"
  let ?n = "elapsed_waits evs"
  have p: "guy_in_phase ?n ?g"
    using guy_run_phase [OF makeGuyEnemy_phase, of evs x y] by simp
  have q: "guy_in_phase (Suc ?n) (guy_waitElapsed ?g)"
    using p by (rule guy_waitElapsed_phase)
  have a: "g_state ?g = guy_phase ?n"
    "g_waits ?g = [(if ?n = 0 then 1 else 2, guy_phase (Suc ?n))]"
    "g_clock ?g = (if ?n = 0 then 0 else 2 * real ?n - 1)"
    "g_flipX ?g = (?n \<noteq> 0 \<and> even ?n)" "g_speed ?g = 100"
    using p by (simp_all add: guy_in_phase_def)
  have b: "g_clock (guy_waitElapsed ?g) = g_clock ?g + (if ?n = 0 then 1 else 2)"
    using q a(3) by (simp add: guy_in_phase_def)
  have c: "guy_velocity ?g = (if ?n = 0 then 0 else if odd ?n then - 100 else 100)"
    using a(1) a(5) by (simp add: guy_velocity_def guy_phase_def)
  have d: "g_pos_x (guy_onStateUpdate dt ?g) = g_pos_x ?g + guy_velocity ?g * dt"
    by (simp add: guy_onStateUpdate_def guy_velocity_def)
  from a b c d show ?thesis by blast
qed

section \<open>Properties of the scenes\<close>


text \<open>
  The product is rounded before it is floored: for the draw \<open>6004799503160661 / 2^53\<close>
  the exact product is just below 2 and the double product is 2, which selects the
  third speed.
\<close>

lemma randomSpeed_ties_to_even:
  "randomSpeed (6004799503160661 / 2 ^ 53) = Some 300"
  by (simp add: randomSpeed_def double_product_floor_def round_even_def possibleSpeeds_def)








end
